theory Spec2Isabelle
  imports Main "HOL-Library.Sublist"
begin

section \<open>Python strings\<close>

text \<open>
  A Python \<open>str\<close> is a sequence of Unicode code points. The program replaces, counts and
  slices single code points outside ASCII (the em dash, the bullet glyphs), so a string is
  modelled as the list of its code points. \<open>lit\<close> gives the code points of a literal
  whose characters are all ASCII.
\<close>

type_synonym pystr = "nat list"

definition lit :: "string \<Rightarrow> pystr" where
  "lit s = map of_char s"

definition em_dash :: nat where "em_dash = 8212"
definition en_dash :: nat where "en_dash = 8211"
definition bullet_glyph :: nat where "bullet_glyph = 8226"
definition white_bullet :: nat where "white_bullet = 9702"
definition small_square :: nat where "small_square = 9642"
definition hyphen :: nat where "hyphen = 45"
definition newline :: nat where "newline = 10"
definition star :: nat where "star = 42"
definition hash :: nat where "hash = 35"
definition colon :: nat where "colon = 58"

text \<open>
  \<open>str.isspace\<close> of one code point: the characters \<open>str.strip()\<close> removes.
\<close>

definition is_space :: "nat \<Rightarrow> bool" where
  "is_space c = ((9 \<le> c \<and> c \<le> 13) \<or> (28 \<le> c \<and> c \<le> 32) \<or> c = 133 \<or> c = 160
     \<or> c = 5760 \<or> (8192 \<le> c \<and> c \<le> 8202) \<or> c = 8232 \<or> c = 8233 \<or> c = 8239
     \<or> c = 8287 \<or> c = 12288)"

definition lstrip :: "pystr \<Rightarrow> pystr" where
  "lstrip s = dropWhile is_space s"

definition rstrip :: "pystr \<Rightarrow> pystr" where
  "rstrip s = rev (dropWhile is_space (rev s))"

definition strip :: "pystr \<Rightarrow> pystr" where
  "strip s = rstrip (lstrip s)"

text \<open>\<open>s.rstrip(chars)\<close>: drops every trailing character that occurs in \<open>chars\<close>.\<close>

definition rstrip_chars :: "pystr \<Rightarrow> pystr \<Rightarrow> pystr" where
  "rstrip_chars chars s = rev (dropWhile (\<lambda>c. c \<in> set chars) (rev s))"

definition startswith :: "pystr \<Rightarrow> pystr \<Rightarrow> bool" where
  "startswith s p = prefix p s"

definition endswith :: "pystr \<Rightarrow> pystr \<Rightarrow> bool" where
  "endswith s p = prefix (rev p) (rev s)"

text \<open>\<open>sub in s\<close> on strings: \<open>sub\<close> occurs in \<open>s\<close> as a contiguous run.\<close>

fun py_in :: "pystr \<Rightarrow> pystr \<Rightarrow> bool" where
  "py_in sub [] = (sub = [])"
| "py_in sub (c # cs) = (prefix sub (c # cs) \<or> py_in sub cs)"

text \<open>
  \<open>s.replace(old, new)\<close>: the occurrences of \<open>old\<close> are found from the left and do
  not overlap. With an empty \<open>old\<close> Python puts \<open>new\<close> around every character.
\<close>

fun replace :: "pystr \<Rightarrow> pystr \<Rightarrow> pystr \<Rightarrow> pystr" where
  "replace old new [] = (if old = [] then new else [])"
| "replace old new (c # cs) =
     (if old = [] then new @ c # replace old new cs
      else if prefix old (c # cs) then new @ replace old new (drop (length old - 1) cs)
      else c # replace old new cs)"

text \<open>\<open>s.split(sep)\<close> for a separator of one character; the result is never empty.\<close>

fun split_on :: "nat \<Rightarrow> pystr \<Rightarrow> pystr list" where
  "split_on sep [] = [[]]"
| "split_on sep (c # cs) =
     (if c = sep then [] # split_on sep cs
      else (case split_on sep cs of
              [] \<Rightarrow> [[c]]
            | l # ls \<Rightarrow> (c # l) # ls))"

text \<open>\<open>sep.join(xs)\<close>.\<close>

fun join :: "pystr \<Rightarrow> pystr list \<Rightarrow> pystr" where
  "join sep [] = []"
| "join sep [x] = x"
| "join sep (x # y # ys) = x @ sep @ join sep (y # ys)"

text \<open>
  \<open>str.lower\<close> and \<open>str.isupper\<close> follow the Unicode case tables, which are not part
  of the program. The functions below take them as the parameters \<open>lower\<close> and
  \<open>isupper\<close>, so that each general theorem holds whatever the tables say. On text that
  is all ASCII they are the two functions here, which the concrete runs use.
\<close>

definition ascii_lower :: "pystr \<Rightarrow> pystr" where
  "ascii_lower s = map (\<lambda>c. if 65 \<le> c \<and> c \<le> 90 then c + 32 else c) s"

definition ascii_isupper :: "pystr \<Rightarrow> bool" where
  "ascii_isupper s = (list_ex (\<lambda>c. 65 \<le> c \<and> c \<le> 90) s \<and> \<not> list_ex (\<lambda>c. 97 \<le> c \<and> c \<le> 122) s)"

section \<open>Content generation (app.py, generate\_policy\_content)\<close>

text \<open>
  An exception is a value: \<open>Inl msg\<close> is a raised exception whose \<open>str(e)\<close> is
  \<open>msg\<close>, \<open>Inr v\<close> a normal return.

  A chat completion response is the list of its choices, each the \<open>message.content\<close>
  of the choice (\<open>None\<close> when the service sent no text).
\<close>

type_synonym 'a raises = "pystr + 'a"

type_synonym response = "pystr option list"

record form_data =
  client_name :: pystr
  industry :: pystr
  company_size :: pystr
  policy_type :: pystr
  compliance_requirements :: pystr
  additional_requirements :: pystr
  tech_stack :: pystr

text \<open>
  The world outside the process: the two environment variables, what
  \<open>openai.ChatCompletion.create\<close> does for an engine name on the prompt built from the
  form data (the prompt is a fixed template filled with the form data's fields), and
  whether writing the document to its temporary file raises.
\<close>

record env =
  AZURE_OPENAI_API_KEY :: "pystr option"
  AZURE_OPENAI_ENDPOINT :: "pystr option"
  ChatCompletion_create :: "pystr \<Rightarrow> form_data \<Rightarrow> response raises"
  doc_save :: "unit raises"

definition falsy :: "pystr option \<Rightarrow> bool" where
  "falsy v = (v = None \<or> v = Some [])"

definition configure_openai :: "env \<Rightarrow> unit raises" where
  "configure_openai e =
     (if falsy (AZURE_OPENAI_API_KEY e) \<or> falsy (AZURE_OPENAI_ENDPOINT e)
      then Inl (lit ''Azure OpenAI credentials not configured'')
      else Inr ())"

definition model_names :: "pystr list" where
  "model_names = [lit ''gpt-5-chat'', lit ''gpt-4o'']"

text \<open>
  The loop over the candidate models (lines 73 to 90). The state is \<open>response\<close>,
  \<open>last_error\<close> and the list of engines called so far, one entry per outbound call.
\<close>

fun try_models :: "(pystr \<Rightarrow> response raises) \<Rightarrow> pystr list \<Rightarrow> pystr option \<Rightarrow> pystr list
    \<Rightarrow> response option \<times> pystr option \<times> pystr list" where
  "try_models create [] last_error calls = (None, last_error, calls)"
| "try_models create (model_name # rest) last_error calls =
     (case create model_name of
        Inr response \<Rightarrow> (Some response, last_error, calls @ [model_name])
      | Inl model_error \<Rightarrow>
          try_models create rest
            (Some (lit ''Model '' @ model_name @ lit '': '' @ model_error))
            (calls @ [model_name]))"

text \<open>An f-string prints \<open>None\<close> as the text None.\<close>

definition fmt :: "pystr option \<Rightarrow> pystr" where
  "fmt v = (case v of None \<Rightarrow> lit ''None'' | Some s \<Rightarrow> s)"

text \<open>
  Lines 68 to 95: configure, try the models, raise when none answered, read the content
  of the first choice. The result carries the engines that were called.
\<close>

definition complete :: "env \<Rightarrow> form_data \<Rightarrow> pystr list \<Rightarrow> pystr option raises \<times> pystr list" where
  "complete e fd names =
     (case configure_openai e of
        Inl err \<Rightarrow> (Inl err, [])
      | Inr _ \<Rightarrow>
          (case try_models (\<lambda>m. ChatCompletion_create e m fd) names None [] of
             (None, last_error, calls) \<Rightarrow>
               (Inl (lit ''All models failed. Last error: '' @ fmt last_error), calls)
           | (Some response, last_error, calls) \<Rightarrow>
               (case response of
                  [] \<Rightarrow> (Inl (lit ''list index out of range''), calls)
                | content # _ \<Rightarrow> (Inr content, calls))))"

subsection \<open>The clean-up of the model's text (lines 97 to 147)\<close>

definition prefixes_to_remove :: "pystr list" where
  "prefixes_to_remove = map lit
     [''Certainly!'', ''Certainly,'', ''Certainly.'', ''Sure!'', ''Sure,'', ''Of course!'',
      ''Of course,'', ''Here is'', ''Here's'', ''Below is'', ''I'll'', ''I can'', ''Let me'',
      ''I'd be happy to'', ''Here you go'', ''Absolutely!'', ''Absolutely,'', ''No problem!'',
      ''No problem,'', ''I have aligned'', ''I have created'', ''This policy'',
      ''The following'']"

text \<open>The loop over the prefixes (lines 106 to 109): the first match is cut and ends it.\<close>

fun remove_prefix :: "pystr list \<Rightarrow> pystr \<Rightarrow> pystr" where
  "remove_prefix [] content = content"
| "remove_prefix (p # ps) content =
     (if startswith (strip content) p
      then strip (drop (length p) (strip content))
      else remove_prefix ps content)"

definition chatter_phrases :: "pystr list" where
  "chatter_phrases = map lit
     [''if you'd like'', ''would you like'', ''let me know if'', ''feel free to'',
      ''i can also'', ''i'd be happy to'', ''please let me know'',
      ''if you need'', ''would you prefer'', ''shall i'', ''do you want'',
      ''comprehensive information security policy'', ''tailored to the organization'',
      ''i have aligned'', ''aligned it with'', ''below is a'', ''here is a'']"

definition artifact_lines :: "pystr list" where
  "artifact_lines =
     [lit ''--'', replicate 60 95, [bullet_glyph], [white_bullet], [small_square]]"

text \<open>The three tests that skip a line (lines 130 to 143), on the trimmed line.\<close>

definition skipped :: "(pystr \<Rightarrow> pystr) \<Rightarrow> pystr \<Rightarrow> bool" where
  "skipped lower line =
     (list_ex (\<lambda>phrase. py_in phrase (lower line)) chatter_phrases
      \<or> line \<in> set artifact_lines
      \<or> (startswith (lower line) (lit ''abilityfirst'')
          \<and> py_in (lit ''information security policy'') (lower line)))"

fun clean_lines :: "(pystr \<Rightarrow> pystr) \<Rightarrow> pystr list \<Rightarrow> pystr list" where
  "clean_lines lower [] = []"
| "clean_lines lower (l # ls) =
     (let line = strip l in
      if skipped lower line then clean_lines lower ls
      else if line \<noteq> [] then line # clean_lines lower ls
      else clean_lines lower ls)"

definition replace_dashes :: "pystr \<Rightarrow> pystr" where
  "replace_dashes content = replace [en_dash] [hyphen] (replace [em_dash] [hyphen] content)"

definition replace_bullets :: "pystr \<Rightarrow> pystr" where
  "replace_bullets content =
     replace [small_square] [hyphen]
       (replace [white_bullet] [hyphen] (replace [bullet_glyph] [hyphen] content))"

definition sanitize :: "(pystr \<Rightarrow> pystr) \<Rightarrow> pystr \<Rightarrow> pystr" where
  "sanitize lower content =
     (let content = remove_prefix prefixes_to_remove content;
          content = replace_dashes content;
          content = replace (lit ''**'') [] content;
          content = replace_bullets content;
          lines = split_on newline content
      in join [newline] (clean_lines lower lines))"

definition error_prefix :: pystr where
  "error_prefix = lit ''Error generating policy content:''"

text \<open>
  The body of the \<open>try\<close> (what may raise), and the function with its handler, which
  turns every exception into text. A response whose content is \<open>None\<close> raises at the
  first \<open>content.strip()\<close>.
\<close>

definition generate_attempt :: "(pystr \<Rightarrow> pystr) \<Rightarrow> env \<Rightarrow> form_data \<Rightarrow> pystr raises \<times> pystr list" where
  "generate_attempt lower e fd =
     (case complete e fd model_names of
        (Inl err, calls) \<Rightarrow> (Inl err, calls)
      | (Inr None, calls) \<Rightarrow>
          (Inl ([39] @ lit ''NoneType'' @ [39] @ lit '' object has no attribute ''
                 @ [39] @ lit ''strip'' @ [39]), calls)
      | (Inr (Some content), calls) \<Rightarrow> (Inr (sanitize lower content), calls))"

definition generate_policy_content :: "(pystr \<Rightarrow> pystr) \<Rightarrow> env \<Rightarrow> form_data \<Rightarrow> pystr \<times> pystr list" where
  "generate_policy_content lower e fd =
     (case generate_attempt lower e fd of
        (Inl err, calls) \<Rightarrow> (error_prefix @ lit '' '' @ err, calls)
      | (Inr text, calls) \<Rightarrow> (text, calls))"

section \<open>The document body (app.py, create\_word\_document, lines 194 to 226)\<close>

text \<open>
  A python-docx document is the list of its paragraphs; a paragraph has a style and a list
  of runs, and its \<open>text\<close> is the runs' texts put together. \<open>add_heading(text, level)\<close>
  adds a paragraph of style Heading \<open>level\<close>, and \<open>add_paragraph(text, style)\<close> gives
  the new paragraph one run when \<open>text\<close> is not empty and none otherwise.
\<close>

datatype style = Normal | Heading nat | List_Bullet | List_Number

datatype docx_paragraph = Paragraph (runs: "pystr list") (style: style)

definition paragraph_text :: "docx_paragraph \<Rightarrow> pystr" where
  "paragraph_text p = concat (runs p)"

definition new_paragraph :: "pystr \<Rightarrow> style \<Rightarrow> docx_paragraph" where
  "new_paragraph t st = Paragraph (if t = [] then [] else [t]) st"

definition add_run :: "docx_paragraph \<Rightarrow> pystr \<Rightarrow> docx_paragraph" where
  "add_run p t = Paragraph (runs p @ [t]) (style p)"

text \<open>
  The loop's state: the document, and \<open>current_paragraph\<close>, which is \<open>None\<close> or the
  paragraph object that the next plain line extends. The object lives in the document, so
  it is held as its position there, and adding a run to it changes the document.
\<close>

record render_state =
  doc :: "docx_paragraph list"
  current_paragraph :: "nat option"

definition add_paragraph :: "render_state \<Rightarrow> pystr \<Rightarrow> style \<Rightarrow> render_state" where
  "add_paragraph st t sty = st\<lparr>doc := doc st @ [new_paragraph t sty], current_paragraph := None\<rparr>"

definition add_run_at :: "docx_paragraph list \<Rightarrow> nat \<Rightarrow> pystr \<Rightarrow> docx_paragraph list" where
  "add_run_at d i t = (if i < length d then d[i := add_run (d ! i) t] else d)"

definition starts_with_digit :: "pystr \<Rightarrow> bool" where
  "starts_with_digit line = (case line of [] \<Rightarrow> False | c # _ \<Rightarrow> 49 \<le> c \<and> c \<le> 57)"

text \<open>One turn of the loop, on one line of the text.\<close>

definition render_line :: "(pystr \<Rightarrow> bool) \<Rightarrow> render_state \<Rightarrow> pystr \<Rightarrow> render_state" where
  "render_line isupper st raw =
     (let line = strip raw in
      if line = [] then
        (if current_paragraph st \<noteq> None
         then add_paragraph st [] Normal
         else st\<lparr>current_paragraph := None\<rparr>)
      else if startswith line (lit ''##'') then
        add_paragraph st (strip (replace (lit ''##'') [] line)) (Heading 2)
      else if startswith line (lit ''#'') then
        add_paragraph st (strip (replace (lit ''#'') [] line)) (Heading 1)
      else if endswith line (lit '':'') \<or> (isupper line \<and> length line > 10) then
        add_paragraph st (rstrip_chars (lit '':'') line) (Heading 2)
      else if startswith line (lit ''-'') \<or> startswith line [bullet_glyph]
              \<or> startswith line (lit ''* '') then
        (let bullet_text = (if startswith line (lit ''-'') then strip (drop 1 line)
                            else strip (drop 2 line))
         in add_paragraph st bullet_text List_Bullet)
      else if starts_with_digit line
              \<and> (py_in (lit ''. '') (take 5 line) \<or> py_in (lit '') '') (take 5 line)) then
        add_paragraph st line List_Number
      else
        (let st1 = (case current_paragraph st of
                      None \<Rightarrow> st\<lparr>doc := doc st @ [new_paragraph [] Normal],
                                 current_paragraph := Some (length (doc st))\<rparr>
                    | Some _ \<Rightarrow> st)
         in case current_paragraph st1 of
              None \<Rightarrow> st1
            | Some i \<Rightarrow>
                (let d = (if i < length (doc st1) \<and> paragraph_text (doc st1 ! i) \<noteq> []
                          then add_run_at (doc st1) i (lit '' '') else doc st1)
                 in st1\<lparr>doc := add_run_at d i line\<rparr>)))"

definition render_lines :: "(pystr \<Rightarrow> bool) \<Rightarrow> render_state \<Rightarrow> pystr list \<Rightarrow> render_state" where
  "render_lines isupper st ls = foldl (render_line isupper) st ls"

text \<open>
  The paragraphs the loop adds for a policy text. The cover paragraphs before them and the
  footer after them are fixed and do not depend on the policy text.
\<close>

definition body :: "(pystr \<Rightarrow> bool) \<Rightarrow> pystr \<Rightarrow> docx_paragraph list" where
  "body isupper policy_content =
     doc (render_lines isupper \<lparr>doc = [], current_paragraph = None\<rparr>
            (split_on newline policy_content))"

section \<open>The endpoint (app.py, generate\_policy)\<close>

text \<open>\<open>request.form\<close>, and \<open>request.form.get(field, '')\<close>.\<close>

type_synonym form = "string \<Rightarrow> pystr option"

definition form_get :: "form \<Rightarrow> string \<Rightarrow> pystr" where
  "form_get f k = (case f k of None \<Rightarrow> [] | Some v \<Rightarrow> v)"

definition tech_fields :: "string list" where
  "tech_fields =
     [''platform_choice'', ''mdr_solution'', ''email_security'', ''siem_solution'',
      ''pam_solution'', ''disk_encryption'', ''mdm_computers'', ''mdm_mobile'',
      ''security_training'', ''phishing_tests'', ''vulnerability_scans'',
      ''dark_web_monitoring'', ''mfa_solution'', ''password_manager'',
      ''intrusion_detection'', ''additional_tech'']"

fun tech_components :: "form \<Rightarrow> string list \<Rightarrow> pystr list" where
  "tech_components f [] = []"
| "tech_components f (field # rest) =
     (let v = strip (form_get f field) in
      if v \<noteq> [] \<and> v \<noteq> lit ''None'' then v # tech_components f rest
      else tech_components f rest)"

definition read_form :: "form \<Rightarrow> form_data" where
  "read_form f =
     \<lparr>client_name = strip (form_get f ''client_name''),
      industry = strip (form_get f ''industry''),
      company_size = strip (form_get f ''company_size''),
      policy_type = strip (form_get f ''policy_type''),
      compliance_requirements = strip (form_get f ''compliance_requirements''),
      additional_requirements = strip (form_get f ''additional_requirements''),
      tech_stack = (if tech_components f tech_fields \<noteq> []
                    then join (lit '', '') (tech_components f tech_fields)
                    else lit ''Standard business technology stack'')\<rparr>"

definition required_fields :: "string list" where
  "required_fields =
     [''client_name'', ''industry'', ''company_size'', ''policy_type'', ''tech_stack'']"

text \<open>\<open>form_data[field]\<close>, for the keys that \<open>required_fields\<close> names.\<close>

definition getitem :: "form_data \<Rightarrow> string \<Rightarrow> pystr" where
  "getitem fd field =
     (if field = ''client_name'' then client_name fd
      else if field = ''industry'' then industry fd
      else if field = ''company_size'' then company_size fd
      else if field = ''policy_type'' then policy_type fd
      else if field = ''tech_stack'' then tech_stack fd
      else [])"

definition missing_fields :: "form_data \<Rightarrow> string list" where
  "missing_fields fd = filter (\<lambda>field. getitem fd field = []) required_fields"

text \<open>
  What the endpoint answers: a JSON error with its HTTP status, or the document as a
  download. The second component of the result lists the engines that were called.
\<close>

datatype http_response = Json_Error nat pystr | Send_File "docx_paragraph list"

definition generate_policy :: "(pystr \<Rightarrow> pystr) \<Rightarrow> (pystr \<Rightarrow> bool) \<Rightarrow> env \<Rightarrow> form
    \<Rightarrow> http_response \<times> pystr list" where
  "generate_policy lower isupper e f =
     (let fd = read_form f in
      if missing_fields fd \<noteq> [] then
        (Json_Error 400
           (lit ''Missing required fields: '' @ join (lit '', '') (map lit (missing_fields fd))),
         [])
      else
        (case generate_policy_content lower e fd of
           (policy_content, calls) \<Rightarrow>
             if startswith policy_content error_prefix
             then (Json_Error 500 policy_content, calls)
             else (case doc_save e of
                     Inl err \<Rightarrow> (Json_Error 500 (lit ''An error occurred: '' @ err), calls)
                   | Inr _ \<Rightarrow> (Send_File (body isupper policy_content), calls))))"

section \<open>Sample runs\<close>

definition sample_form :: form_data where
  "sample_form = \<lparr>client_name = lit ''Acme'', industry = lit ''Retail'',
     company_size = lit ''Small'', policy_type = lit ''Access Control Policy'',
     compliance_requirements = [], additional_requirements = [],
     tech_stack = lit ''Standard business technology stack''\<rparr>"

text \<open>Both engines fail, each with a reason of its own.\<close>

definition failing_create :: "pystr \<Rightarrow> form_data \<Rightarrow> response raises" where
  "failing_create m fd =
     (if m = lit ''gpt-5-chat'' then Inl (lit ''quota exceeded'') else Inl (lit ''timeout''))"

definition failing_env :: env where
  "failing_env = \<lparr>AZURE_OPENAI_API_KEY = Some (lit ''key''),
     AZURE_OPENAI_ENDPOINT = Some (lit ''https://hub.example''),
     ChatCompletion_create = failing_create, doc_save = Inr ()\<rparr>"

section \<open>Theorems\<close>

lemma try_models_all_fail:
  "\<forall>m \<in> set ms. create m = Inl (err m) \<Longrightarrow>
   try_models create ms le calls =
     (None, (if ms = [] then le else Some (lit ''Model '' @ last ms @ lit '': '' @ err (last ms))),
      calls @ ms)"
  by (induction ms arbitrary: le calls) auto

subsection \<open>C1: what the failure of every model reports\<close>

text \<open>
  C1, as the code has it. With the credentials configured, a non-empty list of candidate
  models and every candidate failing, each with any message \<open>err m\<close>, the completion
  step raises "All models failed. Last error: Model m: msg" where \<open>m\<close> is the last
  candidate and \<open>msg\<close> its message, after calling each candidate once in order. Only
  the last candidate's reason is in the message.
\<close>

theorem all_models_fail_reports_last:
  assumes "configure_openai e = Inr ()"
    and "ms \<noteq> []"
    and "\<forall>m \<in> set ms. ChatCompletion_create e m fd = Inl (err m)"
  shows "complete e fd ms =
     (Inl (lit ''All models failed. Last error: '' @ lit ''Model '' @ last ms @ lit '': ''
           @ err (last ms)), ms)"
  using assms try_models_all_fail [of ms "\<lambda>m. ChatCompletion_create e m fd" err None "[]"]
  by (simp add: complete_def fmt_def)

theorem all_models_fail_reports_last_witness:
  "configure_openai failing_env = Inr () \<and> model_names \<noteq> []
   \<and> complete failing_env sample_form model_names =
       (Inl (lit ''All models failed. Last error: Model gpt-4o: timeout''), model_names)"
  using all_models_fail_reports_last [of failing_env model_names sample_form
      "\<lambda>m. if m = lit ''gpt-5-chat'' then lit ''quota exceeded'' else lit ''timeout''"]
  by (simp add: configure_openai_def falsy_def failing_env_def failing_create_def
      model_names_def lit_def)

text \<open>
  C1 as stated fails: when the first engine fails with "quota exceeded" and the second
  with "timeout", the message of the raised exception does not contain the first reason.
\<close>

theorem all_models_fail_counterexample:
  "fst (complete failing_env sample_form model_names) =
     Inl (lit ''All models failed. Last error: Model gpt-4o: timeout'')
   \<and> failing_create (lit ''gpt-5-chat'') sample_form = Inl (lit ''quota exceeded'')
   \<and> \<not> py_in (lit ''quota exceeded'')
         (lit ''All models failed. Last error: Model gpt-4o: timeout'')"
  by (simp add: complete_def configure_openai_def falsy_def failing_env_def
      failing_create_def model_names_def fmt_def lit_def)

end
